theory Spec2Isabelle
  imports Main
begin

section \<open>The image dropdown script (src/assets/image-management.js)\<close>

text \<open>
  The script is a browser-side controller of four page elements: the select
  \<open>available-images\<close>, the buttons \<open>load-images-dropdown\<close> and \<open>refresh-images-list\<close>
  and the text input \<open>docker_image\<close>. It talks to two JSON endpoints and reports through
  the console and through alerts. The model threads one record, the \<open>world\<close>, through
  every function: the four elements (absent or present, as \<open>getElementById\<close> finds them)
  and the chronological trace of everything the script sends outside (console lines,
  alerts, requests). A promise chain is modelled by its parts: the synchronous function
  body up to the request, and the \<open>then\<close>, \<open>catch\<close> and \<open>finally\<close> callbacks run on
  the settled outcome of the request. The callbacks act on the elements the synchronous
  part has found; nothing in the script removes an element, so these are the elements of
  the page when the callbacks run. A request that never settles runs no callback: the
  state is then the one the synchronous part has left.
\<close>

subsection \<open>JavaScript values\<close>

text \<open>
  A value that is a string or \<open>undefined\<close> is a \<open>string option\<close>. \<open>js_to_string\<close> is the
  conversion of a template literal and of \<open>+\<close> on strings; \<open>js_or m d\<close> is \<open>m || d\<close>:
  \<open>undefined\<close> and the empty string are both falsy.
\<close>

definition js_to_string :: "string option \<Rightarrow> string" where
  "js_to_string m = (case m of None \<Rightarrow> ''undefined'' | Some s \<Rightarrow> s)"

definition js_or :: "string option \<Rightarrow> string \<Rightarrow> string" where
  "js_or m d = (case m of None \<Rightarrow> d | Some s \<Rightarrow> if s = [] then d else s)"

text \<open>
  The payload of both endpoints: \<open>{ success: bool, data?: { images: [string, ...] },
  message?: string }\<close>. The refresh handler reads \<open>success\<close> and \<open>message\<close> only.
\<close>

record list_data =
  images :: "string list option"

record api_response =
  success :: bool
  data :: "list_data option"
  message :: "string option"

record js_error =
  err_message :: string

subsection \<open>The host: fetch, alerts, console\<close>

text \<open>
  What the script finds around it: \<open>CTFd.fetch\<close> (truthy or not), the chain
  \<open>CTFd.ui.ezq.ezAlert\<close> (truthy or not), and whether \<open>alert\<close> is a function.
\<close>

record host =
  has_CTFd_fetch :: bool
  has_ezAlert :: bool
  has_alert :: bool

datatype fetcher = CTFd_fetch | window_fetch

record request =
  req_url :: string
  req_method :: string
  req_credentials :: string
  req_headers :: "(string \<times> string) list"

datatype logarg = Text string | Payload api_response | Thrown js_error

datatype event =
    ConsoleLog "logarg list"
  | ConsoleError "logarg list"
  | ConsoleWarn "logarg list"
  | EzAlert string "string option" string
  | NativeAlert string
  | Fetch fetcher request
  | PreventDefault

text \<open>
  What a fetch gives back: a rejection (transport failure), or a response that either has
  a \<open>json\<close> method, whose promise rejects on a body that does not parse and resolves to
  the parsed payload otherwise, or has none and is taken as the payload itself.
\<close>

datatype body = Json "js_error + api_response" | Plain api_response

datatype fetch_outcome = NetworkError js_error | Response body

subsection \<open>The page\<close>

datatype handler = LoadClick | RefreshClick | DropdownChange

record option_el =
  opt_value :: string
  opt_text :: string

text \<open>
  A select holds what the script gives it: the markup last assigned to \<open>innerHTML\<close> and
  the option elements appended since. Assigning \<open>innerHTML\<close> drops all children.
\<close>

record select_el =
  sel_markup :: string
  sel_appended :: "option_el list"
  sel_display :: string
  sel_change :: "handler list"

record button_el =
  btn_disabled :: bool
  btn_innerHTML :: string
  btn_click :: "handler list"

record input_el =
  inp_value :: string

record world =
  dropdown :: "select_el option"
  loadButton :: "button_el option"
  refreshButton :: "button_el option"
  dockerImageInput :: "input_el option"
  trace :: "event list"

definition emit :: "event \<Rightarrow> world \<Rightarrow> world" where
  "emit e w = w\<lparr>trace := trace w @ [e]\<rparr>"

definition upd_dropdown :: "(select_el \<Rightarrow> select_el) \<Rightarrow> world \<Rightarrow> world" where
  "upd_dropdown f w = w\<lparr>dropdown := map_option f (dropdown w)\<rparr>"

definition upd_loadButton :: "(button_el \<Rightarrow> button_el) \<Rightarrow> world \<Rightarrow> world" where
  "upd_loadButton f w = w\<lparr>loadButton := map_option f (loadButton w)\<rparr>"

definition upd_refreshButton :: "(button_el \<Rightarrow> button_el) \<Rightarrow> world \<Rightarrow> world" where
  "upd_refreshButton f w = w\<lparr>refreshButton := map_option f (refreshButton w)\<rparr>"

definition set_innerHTML :: "string \<Rightarrow> select_el \<Rightarrow> select_el" where
  "set_innerHTML s d = d\<lparr>sel_markup := s, sel_appended := []\<rparr>"

definition appendChild :: "option_el \<Rightarrow> select_el \<Rightarrow> select_el" where
  "appendChild opt d = d\<lparr>sel_appended := sel_appended d @ [opt]\<rparr>"

subsection \<open>Reading the options of a select\<close>

text \<open>
  The options a browser shows for a select are the ones it parses from the markup,
  followed by the appended ones. The parser below reads the markup that is a sequence of
  \<open><option value="V">T</option>\<close> elements whose \<open>V\<close> and \<open>T\<close> are plain, and
  answers \<open>None\<close> on any other markup: it says nothing about markup it does not read.
  Plain is a string with none of the four characters that an HTML parser does not copy
  into a text as they are: \<open><\<close> may open a tag, \<open>&\<close> may open a character reference,
  NUL is dropped and CR is turned into a line feed. Every other character, \<open>>\<close> and
  the double quote among them, is text in the content of an option; a value in double
  quotes ends at the next double quote.
\<close>

fun strip_prefix :: "string \<Rightarrow> string \<Rightarrow> string option" where
  "strip_prefix [] s = Some s"
| "strip_prefix (p # ps) [] = None"
| "strip_prefix (p # ps) (c # cs) = (if p = c then strip_prefix ps cs else None)"

definition plain_char :: "char \<Rightarrow> bool" where
  "plain_char c = (c \<noteq> CHR ''<'' \<and> c \<noteq> CHR ''&'' \<and> c \<noteq> CHR 0x00 \<and> c \<noteq> CHR 0x0D)"

definition plain :: "string \<Rightarrow> bool" where
  "plain s = list_all plain_char s"

definition parse_option :: "string \<Rightarrow> (option_el \<times> string) option" where
  \<open>parse_option s =
     (case strip_prefix ''<option value="'' s of
        None \<Rightarrow> None
      | Some r1 \<Rightarrow>
          (case strip_prefix ''">'' (dropWhile (\<lambda>c. c \<noteq> CHR 0x22) r1) of
             None \<Rightarrow> None
           | Some r2 \<Rightarrow>
               (case strip_prefix ''</option>'' (dropWhile (\<lambda>c. c \<noteq> CHR ''<'') r2) of
                  None \<Rightarrow> None
                | Some r3 \<Rightarrow>
                    if plain (takeWhile (\<lambda>c. c \<noteq> CHR 0x22) r1)
                       \<and> plain (takeWhile (\<lambda>c. c \<noteq> CHR ''<'') r2)
                    then Some (\<lparr>opt_value = takeWhile (\<lambda>c. c \<noteq> CHR 0x22) r1,
                                opt_text = takeWhile (\<lambda>c. c \<noteq> CHR ''<'') r2\<rparr>, r3)
                    else None)))\<close>

function parse_options :: "string \<Rightarrow> option_el list option" where
  "parse_options s =
     (if s = [] then Some []
      else (case parse_option s of
              None \<Rightarrow> None
            | Some (opt, rest) \<Rightarrow>
                if length rest < length s
                then map_option ((#) opt) (parse_options rest)
                else None))"
  by pat_completeness auto
termination
  by (relation "measure length") auto

definition select_options :: "select_el \<Rightarrow> option_el list option" where
  "select_options d = map_option (\<lambda>os. os @ sel_appended d) (parse_options (sel_markup d))"

subsection \<open>makeApiCall and showAlert\<close>

text \<open>
  \<open>makeApiCall(url, {method: m})\<close> merges the method into the default options, picks
  \<open>CTFd.fetch\<close> when the host has it and the platform's \<open>fetch\<close> otherwise, and issues
  the request. \<open>makeApiCall_result\<close> is how the promise it returns settles
  (\<open>Inl\<close>: rejected, \<open>Inr\<close>: fulfilled with the payload).
\<close>

definition makeApiCall :: "host \<Rightarrow> string \<Rightarrow> string \<Rightarrow> world \<Rightarrow> world" where
  "makeApiCall h u m w =
     emit (Fetch (if has_CTFd_fetch h then CTFd_fetch else window_fetch)
             \<lparr>req_url = u, req_method = m, req_credentials = ''same-origin'',
              req_headers = [(''Accept'', ''application/json''),
                             (''Content-Type'', ''application/json'')]\<rparr>) w"

fun makeApiCall_result :: "fetch_outcome \<Rightarrow> js_error + api_response" where
  "makeApiCall_result (NetworkError e) = Inl e"
| "makeApiCall_result (Response (Json r)) = r"
| "makeApiCall_result (Response (Plain d)) = Inr d"

text \<open>
  \<open>showAlert(title, message, type)\<close>: a console line, then the host's modal, else the
  platform's alert, else a console warning. The third argument is not used.
\<close>

definition showAlert :: "host \<Rightarrow> string \<Rightarrow> string option \<Rightarrow> string \<Rightarrow> world \<Rightarrow> world" where
  "showAlert h title msg type w =
     (let w1 = emit (ConsoleLog [Text (title @ '': '' @ js_to_string msg)]) w
      in if has_ezAlert h then emit (EzAlert title msg ''OK'') w1
         else if has_alert h then emit (NativeAlert (title @ '': '' @ js_to_string msg)) w1
         else emit (ConsoleWarn [Text ''No alert method available'']) w1)"

subsection \<open>loadAvailableImages\<close>

definition list_url :: string where
  "list_url = ''/api/v1/plugins/ctfd-whale/admin/images/list''"

definition loading_markup :: string where
  \<open>loading_markup = ''<option value="">Loading available images...</option>''\<close>

definition select_markup :: string where
  \<open>select_markup = ''<option value="">Select an image...</option>''\<close>

definition error_markup :: string where
  \<open>error_markup = ''<option value="">Error loading images</option>''\<close>

definition message_markup :: "string \<Rightarrow> string" where
  \<open>message_markup m = ''<option value="">'' @ m @ ''</option>''\<close>

text \<open>
  The synchronous part: the early return when an element is missing, else the loading
  placeholder, the display style, the disabled button, and the request. The flag says
  whether the request was issued (the promise chain is pending).
\<close>

definition loadAvailableImages :: "host \<Rightarrow> world \<Rightarrow> world \<times> bool" where
  "loadAvailableImages h w =
     (case dropdown w of
        None \<Rightarrow> (emit (ConsoleError [Text ''Image dropdown elements not found'']) w, False)
      | Some d \<Rightarrow>
          (case loadButton w of
             None \<Rightarrow> (emit (ConsoleError [Text ''Image dropdown elements not found'']) w, False)
           | Some b \<Rightarrow>
               (makeApiCall h list_url ''GET''
                  (w\<lparr>dropdown := Some ((set_innerHTML loading_markup d)\<lparr>sel_display := ''block''\<rparr>),
                     loadButton := Some (b\<lparr>btn_disabled := True\<rparr>)\<rparr>),
                True)))"

text \<open>
  \<open>data.data && data.data.images\<close>: the list when both are there, no list otherwise
  (an array is truthy even when empty; its length is tested next).
\<close>

definition listed_images :: "api_response \<Rightarrow> string list" where
  "listed_images r =
     (case data r of
        None \<Rightarrow> []
      | Some dt \<Rightarrow> (case images dt of None \<Rightarrow> [] | Some imgs \<Rightarrow> imgs))"

definition createOption :: "string \<Rightarrow> option_el" where
  "createOption img = \<lparr>opt_value = img, opt_text = img\<rparr>"

definition loadAvailableImages_then :: "host \<Rightarrow> api_response \<Rightarrow> world \<Rightarrow> world" where
  "loadAvailableImages_then h r w =
     (let w1 = emit (ConsoleLog [Text ''Images API response:'', Payload r]) w
      in if success r \<and> length (listed_images r) > 0
         then fold (\<lambda>img. upd_dropdown (appendChild (createOption img)))
                (listed_images r) (upd_dropdown (set_innerHTML select_markup) w1)
         else (let msg = js_or (message r) ''No images found with configured prefix'';
                   w2 = upd_dropdown (set_innerHTML (message_markup msg)) w1
               in if \<not> success r then showAlert h ''Error'' (Some msg) ''error'' w2 else w2))"

definition loadAvailableImages_catch :: "host \<Rightarrow> js_error \<Rightarrow> world \<Rightarrow> world" where
  "loadAvailableImages_catch h e w =
     showAlert h ''Error'' (Some (''Failed to load images: '' @ err_message e)) ''error''
       (upd_dropdown (set_innerHTML error_markup)
          (emit (ConsoleError [Text ''Error loading images:'', Thrown e]) w))"

definition loadAvailableImages_finally :: "world \<Rightarrow> world" where
  "loadAvailableImages_finally w = upd_loadButton (\<lambda>b. b\<lparr>btn_disabled := False\<rparr>) w"

text \<open>The chain \<open>.then(...).catch(...).finally(...)\<close> on a settled request.\<close>

definition loadAvailableImages_settle :: "host \<Rightarrow> js_error + api_response \<Rightarrow> world \<Rightarrow> world" where
  "loadAvailableImages_settle h res w =
     loadAvailableImages_finally
       (case res of Inr r \<Rightarrow> loadAvailableImages_then h r w
                  | Inl e \<Rightarrow> loadAvailableImages_catch h e w)"

text \<open>One whole call: the synchronous part, then the chain on the outcome of the fetch.\<close>

definition loadAvailableImages_run :: "host \<Rightarrow> fetch_outcome \<Rightarrow> world \<Rightarrow> world" where
  "loadAvailableImages_run h fo w =
     (case loadAvailableImages h w of
        (w1, True) \<Rightarrow> loadAvailableImages_settle h (makeApiCall_result fo) w1
      | (w1, False) \<Rightarrow> w1)"

subsection \<open>refreshImagesList\<close>

definition refresh_url :: string where
  "refresh_url = ''/api/v1/plugins/ctfd-whale/admin/images/refresh''"

definition spinner_markup :: string where
  \<open>spinner_markup = ''<i class="fas fa-spinner fa-spin"></i>''\<close>

text \<open>
  The synchronous part returns \<open>originalText\<close>, which the \<open>finally\<close> callback holds, when
  the request was issued.
\<close>

definition refreshImagesList :: "host \<Rightarrow> world \<Rightarrow> world \<times> string option" where
  "refreshImagesList h w =
     (case refreshButton w of
        None \<Rightarrow> (emit (ConsoleError [Text ''Refresh button not found'']) w, None)
      | Some b \<Rightarrow>
          (makeApiCall h refresh_url ''POST''
             (w\<lparr>refreshButton := Some (b\<lparr>btn_disabled := True, btn_innerHTML := spinner_markup\<rparr>)\<rparr>),
           Some (btn_innerHTML b)))"

text \<open>
  The \<open>then\<close> callback calls \<open>loadAvailableImages\<close> on success; the flag says whether
  that call issued its request.
\<close>

definition refreshImagesList_then :: "host \<Rightarrow> api_response \<Rightarrow> world \<Rightarrow> world \<times> bool" where
  "refreshImagesList_then h r w =
     (let w1 = emit (ConsoleLog [Text ''Refresh API response:'', Payload r]) w
      in if success r
         then (case loadAvailableImages h w1 of
                 (w2, pending) \<Rightarrow> (showAlert h ''Success'' (message r) ''success'' w2, pending))
         else (showAlert h ''Error'' (Some (js_or (message r) ''Failed to refresh images''))
                 ''error'' w1, False))"

definition refreshImagesList_catch :: "host \<Rightarrow> js_error \<Rightarrow> world \<Rightarrow> world" where
  "refreshImagesList_catch h e w =
     showAlert h ''Error'' (Some (''Failed to refresh images: '' @ err_message e)) ''error''
       (emit (ConsoleError [Text ''Error refreshing images:'', Thrown e]) w)"

definition refreshImagesList_finally :: "string \<Rightarrow> world \<Rightarrow> world" where
  "refreshImagesList_finally originalText w =
     upd_refreshButton (\<lambda>b. b\<lparr>btn_disabled := False, btn_innerHTML := originalText\<rparr>) w"

definition refreshImagesList_settle ::
    "host \<Rightarrow> string \<Rightarrow> js_error + api_response \<Rightarrow> world \<Rightarrow> world \<times> bool" where
  "refreshImagesList_settle h originalText res w =
     (case res of
        Inr r \<Rightarrow> (case refreshImagesList_then h r w of
                    (w1, pending) \<Rightarrow> (refreshImagesList_finally originalText w1, pending))
      | Inl e \<Rightarrow> (refreshImagesList_finally originalText (refreshImagesList_catch h e w), False))"

text \<open>
  The call up to the end of its own chain: the synchronous part, then the chain on the
  outcome of the refresh request. The flag says whether a list request is pending.
\<close>

definition refreshImagesList_chain :: "host \<Rightarrow> fetch_outcome \<Rightarrow> world \<Rightarrow> world \<times> bool" where
  "refreshImagesList_chain h fo w =
     (case refreshImagesList h w of
        (w1, None) \<Rightarrow> (w1, False)
      | (w1, Some originalText) \<Rightarrow>
          refreshImagesList_settle h originalText (makeApiCall_result fo) w1)"

text \<open>
  One whole call: the synchronous part, the chain on the outcome of the refresh request
  and, when that chain started a list request, the chain of \<open>loadAvailableImages\<close> on the
  outcome of the list request.
\<close>

definition refreshImagesList_run :: "host \<Rightarrow> fetch_outcome \<Rightarrow> fetch_outcome \<Rightarrow> world \<Rightarrow> world" where
  "refreshImagesList_run h fo lo w =
     (case refreshImagesList h w of
        (w1, None) \<Rightarrow> w1
      | (w1, Some originalText) \<Rightarrow>
          (case refreshImagesList_settle h originalText (makeApiCall_result fo) w1 of
             (w2, True) \<Rightarrow> loadAvailableImages_settle h (makeApiCall_result lo) w2
           | (w2, False) \<Rightarrow> w2))"

subsection \<open>setupImageDropdown\<close>

text \<open>
  The listeners. \<open>selectedImage\<close> is \<open>dropdown.value\<close> as the browser gives it when the
  change event fires.
\<close>

definition on_load_click :: "host \<Rightarrow> world \<Rightarrow> world \<times> bool" where
  "on_load_click h w =
     loadAvailableImages h (emit (ConsoleLog [Text ''Load images clicked'']) (emit PreventDefault w))"

definition on_refresh_click :: "host \<Rightarrow> world \<Rightarrow> world \<times> string option" where
  "on_refresh_click h w =
     refreshImagesList h (emit (ConsoleLog [Text ''Refresh images clicked'']) (emit PreventDefault w))"

definition on_dropdown_change :: "string \<Rightarrow> world \<Rightarrow> world" where
  "on_dropdown_change selectedImage w =
     (let w1 = emit (ConsoleLog [Text ''Image selected:'', Text selectedImage]) w
      in if selectedImage \<noteq> []
         then (case dockerImageInput w1 of
                 Some inp \<Rightarrow>
                   upd_dropdown (\<lambda>d. d\<lparr>sel_display := ''none''\<rparr>)
                     (w1\<lparr>dockerImageInput := Some (inp\<lparr>inp_value := selectedImage\<rparr>)\<rparr>)
               | None \<Rightarrow> w1)
         else w1)"

text \<open>
  \<open>urlParams\<close> is the query string as \<open>URLSearchParams\<close> has parsed it, a list of name and
  value pairs; \<open>get\<close> gives the first value of a name, or null.
\<close>

definition setupImageDropdown :: "(string \<times> string) list \<Rightarrow> world \<Rightarrow> world" where
  "setupImageDropdown urlParams w =
     (let w0 = emit (ConsoleLog [Text ''Setting up image dropdown functionality'']) w;
          w1 = (case loadButton w0 of
                  Some b \<Rightarrow> w0\<lparr>loadButton := Some (b\<lparr>btn_click := btn_click b @ [LoadClick]\<rparr>)\<rparr>
                | None \<Rightarrow> emit (ConsoleWarn [Text ''Load images button not found'']) w0);
          w2 = (case refreshButton w1 of
                  Some b \<Rightarrow> w1\<lparr>refreshButton := Some (b\<lparr>btn_click := btn_click b @ [RefreshClick]\<rparr>)\<rparr>
                | None \<Rightarrow> emit (ConsoleWarn [Text ''Refresh images button not found'']) w1);
          w3 = (case dropdown w2 of
                  Some d \<Rightarrow> w2\<lparr>dropdown := Some (d\<lparr>sel_change := sel_change d @ [DropdownChange]\<rparr>)\<rparr>
                | None \<Rightarrow> emit (ConsoleWarn [Text ''Available images dropdown not found'']) w2)
      in case map_of urlParams ''image'' of
           None \<Rightarrow> w3
         | Some preselectedImage \<Rightarrow>
             if preselectedImage \<noteq> []
             then (case dockerImageInput w3 of
                     Some inp \<Rightarrow>
                       emit (ConsoleLog [Text ''Pre-selected image from URL:'', Text preselectedImage])
                         (w3\<lparr>dockerImageInput := Some (inp\<lparr>inp_value := preselectedImage\<rparr>)\<rparr>)
                   | None \<Rightarrow> w3)
             else w3)"

text \<open>
  \<open>init\<close> writes a console line and runs \<open>setupImageDropdown\<close>: at once, or on
  \<open>DOMContentLoaded\<close> when the document is still loading. Either way the setup runs
  once on the loaded page.
\<close>

definition init :: "(string \<times> string) list \<Rightarrow> world \<Rightarrow> world" where
  "init urlParams w =
     setupImageDropdown urlParams (emit (ConsoleLog [Text ''Initializing Whale Image Manager'']) w)"

subsection \<open>Observations on a trace\<close>

definition emitted :: "world \<Rightarrow> world \<Rightarrow> event list" where
  "emitted w w' = drop (length (trace w)) (trace w')"

fun is_alert :: "event \<Rightarrow> bool" where
  "is_alert (EzAlert t b k) = True"
| "is_alert (NativeAlert s) = True"
| "is_alert e = False"

fun is_fetch :: "event \<Rightarrow> bool" where
  "is_fetch (Fetch f r) = True"
| "is_fetch e = False"

definition alerts :: "event list \<Rightarrow> event list" where
  "alerts es = filter is_alert es"

definition requests :: "event list \<Rightarrow> event list" where
  "requests es = filter is_fetch es"

fun starts_load :: "event \<Rightarrow> bool" where
  "starts_load (Fetch f r) = (req_url r = list_url)"
| "starts_load (ConsoleError a) = (a = [Text ''Image dropdown elements not found''])"
| "starts_load e = False"

text \<open>
  Every call of \<open>loadAvailableImages\<close> leaves one mark in the trace at once: the
  diagnostic of the early return, or the list request. Counting the marks counts the calls.
\<close>

definition load_calls :: "event list \<Rightarrow> nat" where
  "load_calls es = length (filter starts_load es)"

subsection \<open>Concrete pages, hosts and payloads\<close>

definition page_full :: world where
  "page_full =
     \<lparr>dropdown = Some \<lparr>sel_markup = [], sel_appended = [], sel_display = ''none'', sel_change = []\<rparr>,
      loadButton = Some \<lparr>btn_disabled = False, btn_innerHTML = ''Load'', btn_click = []\<rparr>,
      refreshButton = Some \<lparr>btn_disabled = False, btn_innerHTML = ''Refresh'', btn_click = []\<rparr>,
      dockerImageInput = Some \<lparr>inp_value = ''old''\<rparr>,
      trace = []\<rparr>"

definition page_without_input :: world where
  "page_without_input = page_full\<lparr>dockerImageInput := None\<rparr>"

definition page_without_dropdown :: world where
  "page_without_dropdown = page_full\<lparr>dropdown := None\<rparr>"

definition host_ctfd :: host where
  "host_ctfd = \<lparr>has_CTFd_fetch = True, has_ezAlert = True, has_alert = True\<rparr>"

definition host_browser :: host where
  "host_browser = \<lparr>has_CTFd_fetch = False, has_ezAlert = False, has_alert = True\<rparr>"

definition host_bare :: host where
  "host_bare = \<lparr>has_CTFd_fetch = False, has_ezAlert = False, has_alert = False\<rparr>"

definition two_images :: api_response where
  "two_images = \<lparr>success = True, data = Some \<lparr>images = Some [''ubuntu'', ''alpine'']\<rparr>,
                  message = None\<rparr>"

definition failure_locked :: api_response where
  "failure_locked = \<lparr>success = False, data = None, message = Some ''locked''\<rparr>"

definition failure_empty_message :: api_response where
  "failure_empty_message = \<lparr>success = False, data = None, message = Some []\<rparr>"

definition failure_markup_message :: api_response where
  \<open>failure_markup_message =
     \<lparr>success = False, data = None, message = Some ''</option><option value="x">y''\<rparr>\<close>

definition failure_quoted_message :: api_response where
  \<open>failure_quoted_message =
     \<lparr>success = False, data = None, message = Some ''prefix "whale" -> 0 images''\<rparr>\<close>

definition success_no_message :: api_response where
  "success_no_message = \<lparr>success = True, data = None, message = None\<rparr>"

definition refresh_done :: api_response where
  "refresh_done = \<lparr>success = True, data = None, message = Some ''Image list refreshed''\<rparr>"

definition failed_to_fetch :: js_error where
  "failed_to_fetch = \<lparr>err_message = ''Failed to fetch''\<rparr>"

section \<open>Lemmas on the model\<close>

declare parse_options.simps [simp del]

lemma emit_fields [simp]:
  "dropdown (emit e w) = dropdown w" "loadButton (emit e w) = loadButton w"
  "refreshButton (emit e w) = refreshButton w" "dockerImageInput (emit e w) = dockerImageInput w"
  "trace (emit e w) = trace w @ [e]"
  by (simp_all add: emit_def)

lemma upd_dropdown_fields [simp]:
  "dropdown (upd_dropdown f w) = map_option f (dropdown w)"
  "loadButton (upd_dropdown f w) = loadButton w"
  "refreshButton (upd_dropdown f w) = refreshButton w"
  "dockerImageInput (upd_dropdown f w) = dockerImageInput w"
  "trace (upd_dropdown f w) = trace w"
  by (simp_all add: upd_dropdown_def)

lemma upd_loadButton_fields [simp]:
  "dropdown (upd_loadButton f w) = dropdown w"
  "loadButton (upd_loadButton f w) = map_option f (loadButton w)"
  "refreshButton (upd_loadButton f w) = refreshButton w"
  "dockerImageInput (upd_loadButton f w) = dockerImageInput w"
  "trace (upd_loadButton f w) = trace w"
  by (simp_all add: upd_loadButton_def)

lemma upd_refreshButton_fields [simp]:
  "dropdown (upd_refreshButton f w) = dropdown w"
  "loadButton (upd_refreshButton f w) = loadButton w"
  "refreshButton (upd_refreshButton f w) = map_option f (refreshButton w)"
  "dockerImageInput (upd_refreshButton f w) = dockerImageInput w"
  "trace (upd_refreshButton f w) = trace w"
  by (simp_all add: upd_refreshButton_def)

lemma makeApiCall_fields [simp]:
  "dropdown (makeApiCall h u m w) = dropdown w" "loadButton (makeApiCall h u m w) = loadButton w"
  "refreshButton (makeApiCall h u m w) = refreshButton w"
  "dockerImageInput (makeApiCall h u m w) = dockerImageInput w"
  by (simp_all add: makeApiCall_def)

lemma showAlert_fields [simp]:
  "dropdown (showAlert h t m k w) = dropdown w" "loadButton (showAlert h t m k w) = loadButton w"
  "refreshButton (showAlert h t m k w) = refreshButton w"
  "dockerImageInput (showAlert h t m k w) = dockerImageInput w"
  by (simp_all add: showAlert_def Let_def)

lemma fold_appendChild_dropdown:
  "dropdown (fold (\<lambda>img. upd_dropdown (appendChild (createOption img))) imgs w) =
     map_option (\<lambda>d. d\<lparr>sel_appended := sel_appended d @ map createOption imgs\<rparr>) (dropdown w)"
proof (induction imgs arbitrary: w)
  case Nil
  show ?case by (cases "dropdown w") simp_all
next
  case (Cons i imgs)
  show ?case by (cases "dropdown w") (simp_all add: Cons.IH, simp_all add: appendChild_def)
qed

lemma fold_appendChild_frame:
  "loadButton (fold (\<lambda>img. upd_dropdown (appendChild (createOption img))) imgs w) = loadButton w"
  "refreshButton (fold (\<lambda>img. upd_dropdown (appendChild (createOption img))) imgs w) = refreshButton w"
  "dockerImageInput (fold (\<lambda>img. upd_dropdown (appendChild (createOption img))) imgs w) = dockerImageInput w"
  "trace (fold (\<lambda>img. upd_dropdown (appendChild (createOption img))) imgs w) = trace w"
  by (induction imgs arbitrary: w) simp_all

lemma emitted_append: "trace w' = trace w @ es \<Longrightarrow> emitted w w' = es"
  by (simp add: emitted_def)

lemma plain_Nil [simp]: "plain []"
  by (simp add: plain_def)

lemma plain_no_lt: "plain m \<Longrightarrow> x \<in> set m \<Longrightarrow> x \<noteq> CHR ''<''"
  by (auto simp: plain_def plain_char_def list_all_iff)

lemma parse_option_message:
  "plain m \<Longrightarrow> parse_option (message_markup m) = Some (\<lparr>opt_value = [], opt_text = m\<rparr>, [])"
  by (simp add: message_markup_def parse_option_def takeWhile_append2 dropWhile_append2 plain_no_lt)

lemma parse_options_message:
  "plain m \<Longrightarrow> parse_options (message_markup m) = Some [\<lparr>opt_value = [], opt_text = m\<rparr>]"
  by (subst parse_options.simps)
     (simp add: parse_option_message parse_options.simps[of "[]"], simp add: message_markup_def)

lemma parse_options_select_markup:
  "parse_options select_markup = Some [\<lparr>opt_value = [], opt_text = ''Select an image...''\<rparr>]"
  by (simp add: select_markup_def parse_options.simps parse_option_def plain_def plain_char_def)

lemma parse_options_error_markup:
  "parse_options error_markup = Some [\<lparr>opt_value = [], opt_text = ''Error loading images''\<rparr>]"
  by (simp add: error_markup_def parse_options.simps parse_option_def plain_def plain_char_def)

lemma loadAvailableImages_present:
  "dropdown w = Some d \<Longrightarrow> loadButton w = Some b \<Longrightarrow>
   loadAvailableImages h w =
     (makeApiCall h list_url ''GET''
        (w\<lparr>dropdown := Some ((set_innerHTML loading_markup d)\<lparr>sel_display := ''block''\<rparr>),
           loadButton := Some (b\<lparr>btn_disabled := True\<rparr>)\<rparr>), True)"
  by (simp add: loadAvailableImages_def)

lemma loadAvailableImages_absent:
  "dropdown w = None \<or> loadButton w = None \<Longrightarrow>
   loadAvailableImages h w =
     (emit (ConsoleError [Text ''Image dropdown elements not found'']) w, False)"
  by (auto simp: loadAvailableImages_def split: option.splits)

lemma makeApiCall_trace:
  "trace (makeApiCall h u m w) = trace w @
     [Fetch (if has_CTFd_fetch h then CTFd_fetch else window_fetch)
        \<lparr>req_url = u, req_method = m, req_credentials = ''same-origin'',
         req_headers = [(''Accept'', ''application/json''),
                        (''Content-Type'', ''application/json'')]\<rparr>]"
  by (simp add: makeApiCall_def)

lemma then_success_dropdown:
  "success r \<Longrightarrow> listed_images r \<noteq> [] \<Longrightarrow>
   dropdown (loadAvailableImages_then h r w) =
     map_option (\<lambda>d. d\<lparr>sel_markup := select_markup,
                        sel_appended := map createOption (listed_images r)\<rparr>) (dropdown w)"
  by (cases "dropdown w")
     (simp_all add: loadAvailableImages_then_def Let_def fold_appendChild_dropdown set_innerHTML_def)

lemma then_loadButton [simp]:
  "loadButton (loadAvailableImages_then h r w) = loadButton w"
  by (simp add: loadAvailableImages_then_def Let_def fold_appendChild_frame)

lemma catch_loadButton [simp]:
  "loadButton (loadAvailableImages_catch h e w) = loadButton w"
  by (simp add: loadAvailableImages_catch_def)

lemma settle_loadButton:
  "loadButton (loadAvailableImages_settle h res w) =
     map_option (\<lambda>b. b\<lparr>btn_disabled := False\<rparr>) (loadButton w)"
  by (cases res) (simp_all add: loadAvailableImages_settle_def loadAvailableImages_finally_def)

lemma settle_dropdown:
  "dropdown (loadAvailableImages_settle h res w) =
     (case res of Inr r \<Rightarrow> dropdown (loadAvailableImages_then h r w)
                | Inl e \<Rightarrow> dropdown (loadAvailableImages_catch h e w))"
  by (cases res) (simp_all add: loadAvailableImages_settle_def loadAvailableImages_finally_def)

lemma run_present:
  "dropdown w = Some d \<Longrightarrow> loadButton w = Some b \<Longrightarrow>
   loadAvailableImages_run h fo w =
     loadAvailableImages_settle h (makeApiCall_result fo) (fst (loadAvailableImages h w))"
  by (simp add: loadAvailableImages_run_def loadAvailableImages_present)

lemma refreshImagesList_present:
  "refreshButton w = Some b \<Longrightarrow>
   refreshImagesList h w =
     (makeApiCall h refresh_url ''POST''
        (w\<lparr>refreshButton := Some (b\<lparr>btn_disabled := True, btn_innerHTML := spinner_markup\<rparr>)\<rparr>),
      Some (btn_innerHTML b))"
  by (simp add: refreshImagesList_def)

lemma world_trace_update: "emit e w = w\<lparr>trace := trace w @ [e]\<rparr>"
  by (simp add: emit_def)

lemmas model_defs =
  loadAvailableImages_run_def loadAvailableImages_def loadAvailableImages_settle_def
  loadAvailableImages_then_def loadAvailableImages_catch_def loadAvailableImages_finally_def
  refreshImagesList_run_def refreshImagesList_chain_def refreshImagesList_def
  refreshImagesList_settle_def
  refreshImagesList_then_def refreshImagesList_catch_def refreshImagesList_finally_def
  makeApiCall_def showAlert_def emit_def upd_dropdown_def upd_loadButton_def
  upd_refreshButton_def set_innerHTML_def appendChild_def createOption_def listed_images_def
  js_or_def js_to_string_def on_dropdown_change_def setupImageDropdown_def
  emitted_def alerts_def requests_def load_calls_def Let_def

lemmas input_defs =
  page_full_def page_without_input_def page_without_dropdown_def host_ctfd_def
  host_browser_def host_bare_def two_images_def failure_locked_def
  failure_empty_message_def failure_markup_message_def failure_quoted_message_def
  success_no_message_def
  refresh_done_def failed_to_fetch_def

lemma listed_page_without_input:
  "loadAvailableImages_run host_ctfd (Response (Plain two_images)) page_without_input =
     \<lparr>dropdown = Some \<lparr>sel_markup = select_markup,
                        sel_appended = [\<lparr>opt_value = ''ubuntu'', opt_text = ''ubuntu''\<rparr>,
                                        \<lparr>opt_value = ''alpine'', opt_text = ''alpine''\<rparr>],
                        sel_display = ''block'', sel_change = []\<rparr>,
      loadButton = Some \<lparr>btn_disabled = False, btn_innerHTML = ''Load'', btn_click = []\<rparr>,
      refreshButton = Some \<lparr>btn_disabled = False, btn_innerHTML = ''Refresh'', btn_click = []\<rparr>,
      dockerImageInput = None,
      trace = [Fetch CTFd_fetch
                 \<lparr>req_url = list_url, req_method = ''GET'', req_credentials = ''same-origin'',
                  req_headers = [(''Accept'', ''application/json''),
                                 (''Content-Type'', ''application/json'')]\<rparr>,
               ConsoleLog [Text ''Images API response:'', Payload two_images]]\<rparr>"
  by (simp add: model_defs input_defs)

lemma setup_input:
  "dockerImageInput (setupImageDropdown urlParams w) =
     (case map_of urlParams ''image'' of
        None \<Rightarrow> dockerImageInput w
      | Some v \<Rightarrow> if v \<noteq> [] then map_option (\<lambda>inp. inp\<lparr>inp_value := v\<rparr>) (dockerImageInput w)
                  else dockerImageInput w)"
  by (cases "loadButton w"; cases "refreshButton w"; cases "dropdown w";
      cases "map_of urlParams ''image''"; cases "dockerImageInput w";
      simp add: setupImageDropdown_def Let_def)

lemma setup_requests:
  "requests (emitted w (setupImageDropdown urlParams w)) = []"
  by (cases "loadButton w"; cases "refreshButton w"; cases "dropdown w";
      cases "map_of urlParams ''image''"; cases "dockerImageInput w";
      simp add: setupImageDropdown_def Let_def emitted_def requests_def)

lemma loadAvailableImages_refreshButton [simp]:
  "refreshButton (fst (loadAvailableImages h w)) = refreshButton w"
  by (simp add: loadAvailableImages_def split: option.splits)

lemma settle_refreshButton [simp]:
  "refreshButton (loadAvailableImages_settle h res w) = refreshButton w"
  by (cases res)
     (simp_all add: loadAvailableImages_settle_def loadAvailableImages_finally_def
        loadAvailableImages_then_def loadAvailableImages_catch_def Let_def fold_appendChild_frame)

lemma refresh_settle_refreshButton:
  "refreshButton (fst (refreshImagesList_settle h ot res w)) =
     map_option (\<lambda>b. b\<lparr>btn_disabled := False, btn_innerHTML := ot\<rparr>) (refreshButton w)"
  by (cases res)
     (simp_all add: refreshImagesList_settle_def refreshImagesList_finally_def
        refreshImagesList_then_def refreshImagesList_catch_def Let_def split_beta)

lemma refresh_run_present:
  "refreshButton w = Some rb \<Longrightarrow>
   refreshImagesList_run h fo lo w =
     (let c = refreshImagesList_settle h (btn_innerHTML rb) (makeApiCall_result fo)
                (fst (refreshImagesList h w))
      in if snd c then loadAvailableImages_settle h (makeApiCall_result lo) (fst c) else fst c)"
  by (simp add: refreshImagesList_run_def refreshImagesList_present Let_def split_beta)

lemma showAlert_emitted:
  "trace (showAlert h t m k w) = trace w @
     ConsoleLog [Text (t @ '': '' @ js_to_string m)] #
     (if has_ezAlert h then [EzAlert t m ''OK'']
      else if has_alert h then [NativeAlert (t @ '': '' @ js_to_string m)]
      else [ConsoleWarn [Text ''No alert method available'']])"
  by (simp add: showAlert_def Let_def)

lemma load_begin_trace:
  "dropdown w = Some d \<Longrightarrow> loadButton w = Some b \<Longrightarrow>
   trace (fst (loadAvailableImages h w)) = trace w @
     [Fetch (if has_CTFd_fetch h then CTFd_fetch else window_fetch)
        \<lparr>req_url = list_url, req_method = ''GET'', req_credentials = ''same-origin'',
         req_headers = [(''Accept'', ''application/json''),
                        (''Content-Type'', ''application/json'')]\<rparr>]"
  by (simp add: loadAvailableImages_present makeApiCall_trace)

lemma load_then_trace:
  "trace (loadAvailableImages_then h r w) = trace w @
     ConsoleLog [Text ''Images API response:'', Payload r] #
     (if success r \<and> listed_images r \<noteq> [] then []
      else if success r then []
      else ConsoleLog [Text (''Error: '' @ js_or (message r) ''No images found with configured prefix'')] #
           (if has_ezAlert h
            then [EzAlert ''Error'' (Some (js_or (message r) ''No images found with configured prefix'')) ''OK'']
            else if has_alert h
            then [NativeAlert (''Error: '' @ js_or (message r) ''No images found with configured prefix'')]
            else [ConsoleWarn [Text ''No alert method available'']]))"
  by (simp add: loadAvailableImages_then_def Let_def fold_appendChild_frame showAlert_emitted
        js_to_string_def)

lemma load_catch_trace:
  "trace (loadAvailableImages_catch h e w) = trace w @
     ConsoleError [Text ''Error loading images:'', Thrown e] #
     ConsoleLog [Text (''Error: Failed to load images: '' @ err_message e)] #
     (if has_ezAlert h
      then [EzAlert ''Error'' (Some (''Failed to load images: '' @ err_message e)) ''OK'']
      else if has_alert h
      then [NativeAlert (''Error: Failed to load images: '' @ err_message e)]
      else [ConsoleWarn [Text ''No alert method available'']])"
  by (simp add: loadAvailableImages_catch_def showAlert_emitted js_to_string_def)

lemma load_settle_trace:
  "trace (loadAvailableImages_settle h res w) =
     (case res of Inr r \<Rightarrow> trace (loadAvailableImages_then h r w)
                | Inl e \<Rightarrow> trace (loadAvailableImages_catch h e w))"
  by (cases res) (simp_all add: loadAvailableImages_settle_def loadAvailableImages_finally_def)

lemma then_other_dropdown:
  "\<not> (success r \<and> listed_images r \<noteq> []) \<Longrightarrow>
   dropdown (loadAvailableImages_then h r w) =
     map_option (set_innerHTML (message_markup
        (js_or (message r) ''No images found with configured prefix''))) (dropdown w)"
  by (auto simp: loadAvailableImages_then_def Let_def)

lemma catch_dropdown:
  "dropdown (loadAvailableImages_catch h e w) = map_option (set_innerHTML error_markup) (dropdown w)"
  by (simp add: loadAvailableImages_catch_def)

lemma alerts_simps [simp]:
  "alerts [] = []"
  "alerts (ConsoleLog a # es) = alerts es"
  "alerts (ConsoleError a # es) = alerts es"
  "alerts (ConsoleWarn a # es) = alerts es"
  "alerts (Fetch f q # es) = alerts es"
  "alerts (PreventDefault # es) = alerts es"
  "alerts (EzAlert t m k # es) = EzAlert t m k # alerts es"
  "alerts (NativeAlert s # es) = NativeAlert s # alerts es"
  by (simp_all add: alerts_def)

lemma load_calls_simps [simp]:
  "load_calls [] = 0"
  "load_calls (ConsoleLog a # es) = load_calls es"
  "load_calls (ConsoleWarn a # es) = load_calls es"
  "load_calls (EzAlert t m k # es) = load_calls es"
  "load_calls (NativeAlert s # es) = load_calls es"
  "load_calls (PreventDefault # es) = load_calls es"
  "load_calls (Fetch f q # es) = (if req_url q = list_url then Suc (load_calls es) else load_calls es)"
  "load_calls (ConsoleError a # es) =
     (if a = [Text ''Image dropdown elements not found''] then Suc (load_calls es)
      else load_calls es)"
  by (simp_all add: load_calls_def)

lemma loadAvailableImages_trace:
  "trace (fst (loadAvailableImages h w)) = trace w @
     [if dropdown w = None \<or> loadButton w = None
      then ConsoleError [Text ''Image dropdown elements not found'']
      else Fetch (if has_CTFd_fetch h then CTFd_fetch else window_fetch)
        \<lparr>req_url = list_url, req_method = ''GET'', req_credentials = ''same-origin'',
         req_headers = [(''Accept'', ''application/json''),
                        (''Content-Type'', ''application/json'')]\<rparr>]"
  by (auto simp: loadAvailableImages_def makeApiCall_trace split: option.splits)

lemma loadAvailableImages_one_mark:
  "load_calls (emitted w (fst (loadAvailableImages h w))) = 1"
  by (simp add: emitted_append [OF loadAvailableImages_trace])

lemma refresh_then_trace:
  "trace (fst (refreshImagesList_then h r w)) = trace w @
     ConsoleLog [Text ''Refresh API response:'', Payload r] #
     (if success r
      then (if dropdown w = None \<or> loadButton w = None
            then ConsoleError [Text ''Image dropdown elements not found'']
            else Fetch (if has_CTFd_fetch h then CTFd_fetch else window_fetch)
              \<lparr>req_url = list_url, req_method = ''GET'', req_credentials = ''same-origin'',
               req_headers = [(''Accept'', ''application/json''),
                              (''Content-Type'', ''application/json'')]\<rparr>) #
           ConsoleLog [Text (''Success: '' @ js_to_string (message r))] #
           (if has_ezAlert h then [EzAlert ''Success'' (message r) ''OK'']
            else if has_alert h then [NativeAlert (''Success: '' @ js_to_string (message r))]
            else [ConsoleWarn [Text ''No alert method available'']])
      else ConsoleLog [Text (''Error: '' @ js_or (message r) ''Failed to refresh images'')] #
           (if has_ezAlert h
            then [EzAlert ''Error'' (Some (js_or (message r) ''Failed to refresh images'')) ''OK'']
            else if has_alert h
            then [NativeAlert (''Error: '' @ js_or (message r) ''Failed to refresh images'')]
            else [ConsoleWarn [Text ''No alert method available'']]))"
  by (simp add: refreshImagesList_then_def Let_def split_beta showAlert_emitted
        loadAvailableImages_trace js_to_string_def)

lemma refresh_catch_trace:
  "trace (refreshImagesList_catch h e w) = trace w @
     ConsoleError [Text ''Error refreshing images:'', Thrown e] #
     ConsoleLog [Text (''Error: Failed to refresh images: '' @ err_message e)] #
     (if has_ezAlert h
      then [EzAlert ''Error'' (Some (''Failed to refresh images: '' @ err_message e)) ''OK'']
      else if has_alert h
      then [NativeAlert (''Error: Failed to refresh images: '' @ err_message e)]
      else [ConsoleWarn [Text ''No alert method available'']])"
  by (simp add: refreshImagesList_catch_def showAlert_emitted js_to_string_def)

lemma refresh_settle_trace:
  "trace (fst (refreshImagesList_settle h ot res w)) =
     (case res of Inr r \<Rightarrow> trace (fst (refreshImagesList_then h r w))
                | Inl e \<Rightarrow> trace (refreshImagesList_catch h e w))"
  by (cases res) (simp_all add: refreshImagesList_settle_def refreshImagesList_finally_def split_beta)

lemma refresh_settle_dropdown:
  "dropdown (fst (refreshImagesList_settle h ot res w)) =
     (case res of Inr r \<Rightarrow> if success r then dropdown (fst (loadAvailableImages h
                                 (emit (ConsoleLog [Text ''Refresh API response:'', Payload r]) w)))
                              else dropdown w
                | Inl e \<Rightarrow> dropdown w)"
  by (cases res)
     (simp_all add: refreshImagesList_settle_def refreshImagesList_finally_def split_beta
        refreshImagesList_then_def refreshImagesList_catch_def Let_def)

lemma refresh_chain_present:
  "refreshButton w = Some rb \<Longrightarrow>
   refreshImagesList_chain h fo w =
     refreshImagesList_settle h (btn_innerHTML rb) (makeApiCall_result fo)
       (fst (refreshImagesList h w))"
  by (simp add: refreshImagesList_chain_def refreshImagesList_present)

lemma refresh_chain_emitted:
  assumes "refreshButton w = Some rb"
  shows "emitted w (fst (refreshImagesList_chain h fo w)) =
     Fetch (if has_CTFd_fetch h then CTFd_fetch else window_fetch)
        \<lparr>req_url = refresh_url, req_method = ''POST'', req_credentials = ''same-origin'',
         req_headers = [(''Accept'', ''application/json''),
                        (''Content-Type'', ''application/json'')]\<rparr> #
     (case makeApiCall_result fo of
        Inr r \<Rightarrow>
          ConsoleLog [Text ''Refresh API response:'', Payload r] #
          (if success r
           then (if dropdown w = None \<or> loadButton w = None
                 then ConsoleError [Text ''Image dropdown elements not found'']
                 else Fetch (if has_CTFd_fetch h then CTFd_fetch else window_fetch)
                   \<lparr>req_url = list_url, req_method = ''GET'', req_credentials = ''same-origin'',
                    req_headers = [(''Accept'', ''application/json''),
                                   (''Content-Type'', ''application/json'')]\<rparr>) #
                ConsoleLog [Text (''Success: '' @ js_to_string (message r))] #
                (if has_ezAlert h then [EzAlert ''Success'' (message r) ''OK'']
                 else if has_alert h then [NativeAlert (''Success: '' @ js_to_string (message r))]
                 else [ConsoleWarn [Text ''No alert method available'']])
           else ConsoleLog [Text (''Error: '' @ js_or (message r) ''Failed to refresh images'')] #
                (if has_ezAlert h
                 then [EzAlert ''Error'' (Some (js_or (message r) ''Failed to refresh images'')) ''OK'']
                 else if has_alert h
                 then [NativeAlert (''Error: '' @ js_or (message r) ''Failed to refresh images'')]
                 else [ConsoleWarn [Text ''No alert method available'']]))
      | Inl e \<Rightarrow>
          ConsoleError [Text ''Error refreshing images:'', Thrown e] #
          ConsoleLog [Text (''Error: Failed to refresh images: '' @ err_message e)] #
          (if has_ezAlert h
           then [EzAlert ''Error'' (Some (''Failed to refresh images: '' @ err_message e)) ''OK'']
           else if has_alert h
           then [NativeAlert (''Error: Failed to refresh images: '' @ err_message e)]
           else [ConsoleWarn [Text ''No alert method available'']]))"
  using assms
  by (intro emitted_append)
     (simp add: refresh_chain_present refresh_settle_trace refresh_then_trace
        refresh_catch_trace makeApiCall_trace refreshImagesList_present split: sum.splits)

lemma refresh_chain_dropdown:
  assumes "refreshButton w = Some rb"
  shows "dropdown (fst (refreshImagesList_chain h fo w)) =
     (case makeApiCall_result fo of
        Inr r \<Rightarrow> if success r then dropdown (fst (loadAvailableImages h
                      (emit (ConsoleLog [Text ''Refresh API response:'', Payload r])
                         (fst (refreshImagesList h w)))))
                 else dropdown w
      | Inl e \<Rightarrow> dropdown w)"
  using assms
  by (simp add: refresh_chain_present refresh_settle_dropdown refreshImagesList_present
        split: sum.splits)

lemma urls_differ [simp]: "refresh_url \<noteq> list_url"
  by (simp add: refresh_url_def list_url_def)

lemma load_calls_append: "load_calls (xs @ ys) = load_calls xs + load_calls ys"
  by (simp add: load_calls_def)

lemma load_settle_extends:
  "\<exists>fs. trace (loadAvailableImages_settle h res w) = trace w @ fs \<and> load_calls fs = 0"
  by (cases res) (simp_all add: load_settle_trace load_then_trace load_catch_trace)

lemma refresh_chain_extends:
  "length (trace w) \<le> length (trace (fst (refreshImagesList_chain h fo w)))"
  by (cases "refreshButton w"; cases "makeApiCall_result fo")
     (simp_all add: refreshImagesList_chain_def refreshImagesList_def refresh_settle_trace
        refresh_then_trace refresh_catch_trace makeApiCall_trace)

lemma emitted_trans:
  "length (trace w) \<le> length (trace w1) \<Longrightarrow> trace w2 = trace w1 @ fs \<Longrightarrow>
   emitted w w2 = emitted w w1 @ fs"
  by (simp add: emitted_def)

lemma refresh_run_via_chain:
  "refreshImagesList_run h fo lo w =
     (if snd (refreshImagesList_chain h fo w)
      then loadAvailableImages_settle h (makeApiCall_result lo) (fst (refreshImagesList_chain h fo w))
      else fst (refreshImagesList_chain h fo w))"
  by (cases "refreshButton w")
     (simp_all add: refreshImagesList_run_def refreshImagesList_chain_def refreshImagesList_def
        split_beta)

lemma refresh_run_load_calls:
  "load_calls (emitted w (refreshImagesList_run h fo lo w)) =
     load_calls (emitted w (fst (refreshImagesList_chain h fo w)))"
proof (cases "snd (refreshImagesList_chain h fo w)")
  case True
  obtain fs where fs: "trace (loadAvailableImages_settle h (makeApiCall_result lo)
        (fst (refreshImagesList_chain h fo w))) = trace (fst (refreshImagesList_chain h fo w)) @ fs"
      and z: "load_calls fs = 0"
    using load_settle_extends by blast
  show ?thesis
    using True emitted_trans [OF refresh_chain_extends fs] z
    by (simp add: refresh_run_via_chain load_calls_append)
next
  case False
  then show ?thesis by (simp add: refresh_run_via_chain)
qed

lemma refresh_chain_pending:
  assumes "refreshButton w = Some rb"
  shows "snd (refreshImagesList_chain h fo w) =
     (case makeApiCall_result fo of
        Inr r \<Rightarrow> success r \<and> dropdown w \<noteq> None \<and> loadButton w \<noteq> None
      | Inl e \<Rightarrow> False)"
  using assms
  by (cases "makeApiCall_result fo"; cases "dropdown w"; cases "loadButton w")
     (simp_all add: refresh_chain_present refreshImagesList_settle_def refreshImagesList_then_def
        refreshImagesList_present loadAvailableImages_def Let_def split_beta)


section \<open>The claims\<close>

subsection \<open>C1: a list of images fills the dropdown\<close>

text \<open>
  Claim C1. When the list request is answered with a payload whose success flag is true
  and whose data holds a non-empty list of N image names, a call of
  \<open>loadAvailableImages\<close> leaves the dropdown with exactly N+1 options: first the
  placeholder with the empty value and the text \<open>Select an image...\<close>, then one option
  per name, value and text equal to the name, in the order of the payload; and the button
  is enabled. The request is only made on a page that has the select and the button, so
  these are there whenever there is an answer.
\<close>

theorem C1_load_success_options:
  assumes "dropdown w = Some d" and "loadButton w = Some b"
    and "makeApiCall_result fo = Inr r"
    and "success r" and "data r = Some dt" and "images dt = Some imgs" and "imgs \<noteq> []"
  shows "map_option select_options (dropdown (loadAvailableImages_run h fo w)) =
           Some (Some (\<lparr>opt_value = [], opt_text = ''Select an image...''\<rparr>
                       # map (\<lambda>n. \<lparr>opt_value = n, opt_text = n\<rparr>) imgs))
         \<and> map_option (map_option length \<circ> select_options)
              (dropdown (loadAvailableImages_run h fo w)) = Some (Some (length imgs + 1))
         \<and> map_option btn_disabled (loadButton (loadAvailableImages_run h fo w)) = Some False"
proof -
  let ?w' = "loadAvailableImages_run h fo w"
  have li: "listed_images r = imgs"
    using assms(5,6) by (simp add: listed_images_def)
  have dd: "dropdown ?w' =
      Some (d\<lparr>sel_markup := select_markup, sel_appended := map createOption imgs,
               sel_display := ''block''\<rparr>)"
    using assms(1-4,7) li
    by (simp add: run_present settle_dropdown then_success_dropdown
          loadAvailableImages_present set_innerHTML_def)
  have bb: "loadButton ?w' = Some (b\<lparr>btn_disabled := False\<rparr>)"
    using assms(1,2) by (simp add: run_present settle_loadButton loadAvailableImages_present)
  have cr: "map createOption imgs = map (\<lambda>n. \<lparr>opt_value = n, opt_text = n\<rparr>) imgs"
    by (simp add: createOption_def)
  show ?thesis
    by (simp add: dd bb select_options_def parse_options_select_markup cr)
qed

theorem C1_load_success_options_witness:
  "map_option select_options
     (dropdown (loadAvailableImages_run host_ctfd (Response (Plain two_images)) page_full)) =
     Some (Some [\<lparr>opt_value = [], opt_text = ''Select an image...''\<rparr>,
                 \<lparr>opt_value = ''ubuntu'', opt_text = ''ubuntu''\<rparr>,
                 \<lparr>opt_value = ''alpine'', opt_text = ''alpine''\<rparr>])
   \<and> map_option btn_disabled
        (loadButton (loadAvailableImages_run host_ctfd (Response (Plain two_images)) page_full))
       = Some False"
proof -
  have h1: "dropdown page_full =
      Some \<lparr>sel_markup = [], sel_appended = [], sel_display = ''none'', sel_change = []\<rparr>"
    by (simp add: page_full_def)
  have h2: "loadButton page_full =
      Some \<lparr>btn_disabled = False, btn_innerHTML = ''Load'', btn_click = []\<rparr>"
    by (simp add: page_full_def)
  have h3: "makeApiCall_result (Response (Plain two_images)) = Inr two_images" by simp
  have h4: "success two_images" by (simp add: two_images_def)
  have h5: "data two_images = Some \<lparr>images = Some [''ubuntu'', ''alpine'']\<rparr>"
    by (simp add: two_images_def)
  have h6: "images \<lparr>images = Some [''ubuntu'', ''alpine'']\<rparr> = Some [''ubuntu'', ''alpine'']"
    by simp
  have h7: "[''ubuntu'', ''alpine''] \<noteq> []" by simp
  from C1_load_success_options [OF h1 h2 h3 h4 h5 h6 h7, of host_ctfd]
  show ?thesis by simp
qed

subsection \<open>C2: no list of images in the payload\<close>

text \<open>
  Claim C2 says that the dropdown then shows a single option holding the message the
  server sent, a default standing in only for an absent message, and that an alert is
  raised exactly when the success flag is false. Three payloads show where the script
  differs. A message that is the empty string is there, and the option and the alert hold
  the default (\<open>data.message || ...\<close> takes the empty string as falsy). A message goes
  into \<open>innerHTML\<close> without escaping, so the message \<open></option><option value="x">y\<close>
  gives two options, not one holding the message (the branch that lists the images sets
  \<open>textContent\<close> and has no such effect). And on a host with no alert method a payload
  with the success flag false raises no alert.
\<close>

theorem C2_counterexample:
  "message failure_empty_message = Some []
   \<and> map_option select_options (dropdown
        (loadAvailableImages_run host_ctfd (Response (Plain failure_empty_message)) page_full)) =
       Some (Some [\<lparr>opt_value = [], opt_text = ''No images found with configured prefix''\<rparr>])
   \<and> alerts (emitted page_full
        (loadAvailableImages_run host_ctfd (Response (Plain failure_empty_message)) page_full)) =
       [EzAlert ''Error'' (Some ''No images found with configured prefix'') ''OK'']
   \<and> map_option select_options (dropdown
        (loadAvailableImages_run host_ctfd (Response (Plain failure_markup_message)) page_full)) =
       Some (Some [\<lparr>opt_value = [], opt_text = []\<rparr>, \<lparr>opt_value = ''x'', opt_text = ''y''\<rparr>])
   \<and> alerts (emitted page_full
        (loadAvailableImages_run host_bare (Response (Plain failure_locked)) page_full)) = []"
  by (simp add: model_defs input_defs select_options_def message_markup_def
        parse_options.simps parse_option_def plain_def plain_char_def)

text \<open>
  Claim C2 as amended. When the list request is answered with a payload that has the
  success flag false or no image in it, the message to show is the payload's message if
  there is one and it is not empty, else \<open>No images found with configured prefix\<close>.
  After a call of \<open>loadAvailableImages\<close> (on a page that has the select and the button,
  as it must for the request to be made), when that message has none of the characters
  \<open><\<close>, \<open>&\<close>, NUL and CR, the dropdown has a single option, with the empty value and
  the message as its text. Nothing is said of the options when the message has one of
  these characters. Whatever the message, an alert is raised only when the success flag
  is false, and then one: the host's modal with the title \<open>Error\<close> and the message as
  body, or else the platform's alert with the text \<open>Error: \<close> and the message; a host
  with neither gets none. The button is enabled afterwards.
\<close>

theorem C2_load_no_images:
  assumes "dropdown w = Some d" and "loadButton w = Some b"
    and "makeApiCall_result fo = Inr r"
    and "\<not> success r \<or> listed_images r = []"
    and "msg = (case message r of
                  None \<Rightarrow> ''No images found with configured prefix''
                | Some s \<Rightarrow> if s = [] then ''No images found with configured prefix'' else s)"
  shows "(plain msg \<longrightarrow>
               map_option select_options (dropdown (loadAvailableImages_run h fo w)) =
                 Some (Some [\<lparr>opt_value = [], opt_text = msg\<rparr>]))
         \<and> alerts (emitted w (loadAvailableImages_run h fo w)) =
             (if success r then []
              else if has_ezAlert h then [EzAlert ''Error'' (Some msg) ''OK'']
              else if has_alert h then [NativeAlert (''Error: '' @ msg)]
              else [])
         \<and> map_option btn_disabled (loadButton (loadAvailableImages_run h fo w)) = Some False"
proof -
  let ?w' = "loadAvailableImages_run h fo w"
  have m: "js_or (message r) ''No images found with configured prefix'' = msg"
    using assms(5) by (simp add: js_or_def)
  have guard: "\<not> (success r \<and> listed_images r \<noteq> [])"
    using assms(4) by auto
  have dd: "dropdown ?w' =
      Some (d\<lparr>sel_markup := message_markup msg, sel_appended := [], sel_display := ''block''\<rparr>)"
    using assms(1-3) guard
    by (simp add: run_present settle_dropdown then_other_dropdown m
          loadAvailableImages_present set_innerHTML_def)
  have bb: "loadButton ?w' = Some (b\<lparr>btn_disabled := False\<rparr>)"
    using assms(1,2) by (simp add: run_present settle_loadButton loadAvailableImages_present)
  have tr: "alerts (emitted w ?w') =
             (if success r then []
              else if has_ezAlert h then [EzAlert ''Error'' (Some msg) ''OK'']
              else if has_alert h then [NativeAlert (''Error: '' @ msg)]
              else [])"
  proof -
    have "trace ?w' = trace w @
      Fetch (if has_CTFd_fetch h then CTFd_fetch else window_fetch)
        \<lparr>req_url = list_url, req_method = ''GET'', req_credentials = ''same-origin'',
         req_headers = [(''Accept'', ''application/json''),
                        (''Content-Type'', ''application/json'')]\<rparr> #
      ConsoleLog [Text ''Images API response:'', Payload r] #
      (if success r then []
       else ConsoleLog [Text (''Error: '' @ msg)] #
           (if has_ezAlert h then [EzAlert ''Error'' (Some msg) ''OK'']
            else if has_alert h then [NativeAlert (''Error: '' @ msg)]
            else [ConsoleWarn [Text ''No alert method available'']]))"
      using assms(1-3) guard
      by (simp add: run_present load_settle_trace load_then_trace load_begin_trace m)
    from emitted_append [OF this] show ?thesis by simp
  qed
  show ?thesis
    by (simp add: dd bb tr select_options_def parse_options_message)
qed

theorem C2_load_no_images_witness:
  \<open>map_option select_options (dropdown
     (loadAvailableImages_run host_ctfd (Response (Plain failure_locked)) page_full)) =
     Some (Some [\<lparr>opt_value = [], opt_text = ''locked''\<rparr>])
   \<and> alerts (emitted page_full
        (loadAvailableImages_run host_ctfd (Response (Plain failure_locked)) page_full)) =
       [EzAlert ''Error'' (Some ''locked'') ''OK'']
   \<and> map_option select_options (dropdown
        (loadAvailableImages_run host_browser (Response (Plain success_no_message)) page_full)) =
       Some (Some [\<lparr>opt_value = [], opt_text = ''No images found with configured prefix''\<rparr>])
   \<and> alerts (emitted page_full
        (loadAvailableImages_run host_browser (Response (Plain success_no_message)) page_full)) = []
   \<and> map_option select_options (dropdown
        (loadAvailableImages_run host_browser (Response (Plain failure_quoted_message)) page_full)) =
       Some (Some [\<lparr>opt_value = [], opt_text = ''prefix "whale" -> 0 images''\<rparr>])
   \<and> alerts (emitted page_full
        (loadAvailableImages_run host_browser (Response (Plain failure_quoted_message)) page_full)) =
       [NativeAlert ''Error: prefix "whale" -> 0 images'']\<close>
proof -
  have h1: "dropdown page_full =
      Some \<lparr>sel_markup = [], sel_appended = [], sel_display = ''none'', sel_change = []\<rparr>"
    by (simp add: page_full_def)
  have h2: "loadButton page_full =
      Some \<lparr>btn_disabled = False, btn_innerHTML = ''Load'', btn_click = []\<rparr>"
    by (simp add: page_full_def)
  have a3: "makeApiCall_result (Response (Plain failure_locked)) = Inr failure_locked" by simp
  have a4: "\<not> success failure_locked \<or> listed_images failure_locked = []"
    by (simp add: failure_locked_def)
  have a5: "''locked'' = (case message failure_locked of
                  None \<Rightarrow> ''No images found with configured prefix''
                | Some s \<Rightarrow> if s = [] then ''No images found with configured prefix'' else s)"
    by (simp add: failure_locked_def)
  have b3: "makeApiCall_result (Response (Plain success_no_message)) = Inr success_no_message"
    by simp
  have b4: "\<not> success success_no_message \<or> listed_images success_no_message = []"
    by (simp add: success_no_message_def listed_images_def)
  have b5: "''No images found with configured prefix'' = (case message success_no_message of
                  None \<Rightarrow> ''No images found with configured prefix''
                | Some s \<Rightarrow> if s = [] then ''No images found with configured prefix'' else s)"
    by (simp add: success_no_message_def)
  have c3: "makeApiCall_result (Response (Plain failure_quoted_message)) =
      Inr failure_quoted_message"
    by simp
  have c4: "\<not> success failure_quoted_message \<or> listed_images failure_quoted_message = []"
    by (simp add: failure_quoted_message_def)
  have c5: \<open>''prefix "whale" -> 0 images'' = (case message failure_quoted_message of
                  None \<Rightarrow> ''No images found with configured prefix''
                | Some s \<Rightarrow> if s = [] then ''No images found with configured prefix'' else s)\<close>
    by (simp add: failure_quoted_message_def)
  have p1: "plain ''locked''" by (simp add: plain_def plain_char_def)
  have p2: "plain ''No images found with configured prefix''"
    by (simp add: plain_def plain_char_def)
  have p3: \<open>plain ''prefix "whale" -> 0 images''\<close> by (simp add: plain_def plain_char_def)
  from C2_load_no_images [OF h1 h2 a3 a4 a5, of host_ctfd]
       C2_load_no_images [OF h1 h2 b3 b4 b5, of host_browser]
       C2_load_no_images [OF h1 h2 c3 c4 c5, of host_browser] p1 p2 p3
  show ?thesis
    by (simp add: host_ctfd_def host_browser_def failure_locked_def success_no_message_def
          failure_quoted_message_def)
qed

subsection \<open>C3: the list request fails\<close>

text \<open>
  Claim C3 as amended. When the list request is rejected (a transport failure, or a body
  that does not parse), a call of \<open>loadAvailableImages\<close> on a page that has the select
  and the button (as it must for the request to be made) leaves \<open>Error loading images\<close> as the only option of the dropdown, and
  raises one alert when the host offers one: the host's modal with the title \<open>Error\<close>
  and the body \<open>Failed to load images: \<close> followed by the error's message, or else the
  platform's alert with the text \<open>Error: Failed to load images: \<close> followed by the
  error's message. A host with neither gets no alert.
\<close>

theorem C3_load_failure:
  assumes "dropdown w = Some d" and "loadButton w = Some b"
    and "makeApiCall_result fo = Inl e"
  shows "map_option select_options (dropdown (loadAvailableImages_run h fo w)) =
           Some (Some [\<lparr>opt_value = [], opt_text = ''Error loading images''\<rparr>])
         \<and> alerts (emitted w (loadAvailableImages_run h fo w)) =
             (if has_ezAlert h
              then [EzAlert ''Error'' (Some (''Failed to load images: '' @ err_message e)) ''OK'']
              else if has_alert h
              then [NativeAlert (''Error: Failed to load images: '' @ err_message e)]
              else [])"
proof -
  let ?w' = "loadAvailableImages_run h fo w"
  have dd: "dropdown ?w' =
      Some (d\<lparr>sel_markup := error_markup, sel_appended := [], sel_display := ''block''\<rparr>)"
    using assms
    by (simp add: run_present settle_dropdown catch_dropdown loadAvailableImages_present
          set_innerHTML_def)
  have tr: "emitted w ?w' =
      Fetch (if has_CTFd_fetch h then CTFd_fetch else window_fetch)
        \<lparr>req_url = list_url, req_method = ''GET'', req_credentials = ''same-origin'',
         req_headers = [(''Accept'', ''application/json''),
                        (''Content-Type'', ''application/json'')]\<rparr> #
      ConsoleError [Text ''Error loading images:'', Thrown e] #
      ConsoleLog [Text (''Error: Failed to load images: '' @ err_message e)] #
      (if has_ezAlert h
       then [EzAlert ''Error'' (Some (''Failed to load images: '' @ err_message e)) ''OK'']
       else if has_alert h
       then [NativeAlert (''Error: Failed to load images: '' @ err_message e)]
       else [ConsoleWarn [Text ''No alert method available'']])"
    using assms
    by (intro emitted_append)
       (simp add: run_present load_settle_trace load_catch_trace load_begin_trace)
  show ?thesis
    by (simp add: dd tr select_options_def parse_options_error_markup)
qed

text \<open>
  Claim C3 says that every failure of the list request raises one alert. \<open>showAlert\<close> has
  a third branch, a console warning for a host that has neither \<open>CTFd.ui.ezq.ezAlert\<close>
  nor \<open>alert\<close>: there a network error raises no alert at all.
\<close>

theorem C3_counterexample:
  "alerts (emitted page_full
     (loadAvailableImages_run host_bare (NetworkError failed_to_fetch) page_full)) = []"
  by (simp add: model_defs input_defs)

theorem C3_load_failure_witness:
  "map_option select_options
     (dropdown (loadAvailableImages_run host_ctfd (NetworkError failed_to_fetch) page_full)) =
     Some (Some [\<lparr>opt_value = [], opt_text = ''Error loading images''\<rparr>])
   \<and> alerts (emitted page_full
        (loadAvailableImages_run host_ctfd (NetworkError failed_to_fetch) page_full)) =
       [EzAlert ''Error'' (Some ''Failed to load images: Failed to fetch'') ''OK'']
   \<and> alerts (emitted page_full
        (loadAvailableImages_run host_browser (NetworkError failed_to_fetch) page_full)) =
       [NativeAlert ''Error: Failed to load images: Failed to fetch'']"
proof -
  have h1: "dropdown page_full =
      Some \<lparr>sel_markup = [], sel_appended = [], sel_display = ''none'', sel_change = []\<rparr>"
    by (simp add: page_full_def)
  have h2: "loadButton page_full =
      Some \<lparr>btn_disabled = False, btn_innerHTML = ''Load'', btn_click = []\<rparr>"
    by (simp add: page_full_def)
  have h3: "makeApiCall_result (NetworkError failed_to_fetch) = Inl failed_to_fetch" by simp
  from C3_load_failure [OF h1 h2 h3, of host_ctfd] C3_load_failure [OF h1 h2 h3, of host_browser]
  show ?thesis by (simp add: host_ctfd_def host_browser_def failed_to_fetch_def)
qed

subsection \<open>C4: the button is disabled for the time of the request only\<close>

text \<open>
  Claim C4. On a page that has the select and the load button, \<open>loadAvailableImages\<close>
  issues its request from a state in which the button is already disabled, and however
  the request settles (a payload of any content, a network error, a body that does not
  parse) the button is enabled when the chain has run. On a page that has the refresh
  button, \<open>refreshImagesList\<close> does the same with its button and also puts back the
  label the button had before the call, when its own chain has run and still after the
  list request it may have started has settled.
\<close>

theorem C4_button_cleanup:
  "(dropdown w = Some d \<and> loadButton w = Some b \<longrightarrow>
      (\<exists>w0. loadAvailableImages h w = (makeApiCall h list_url ''GET'' w0, True)
            \<and> map_option btn_disabled (loadButton w0) = Some True
            \<and> trace w0 = trace w)
      \<and> map_option btn_disabled (loadButton (fst (loadAvailableImages h w))) = Some True
      \<and> map_option btn_disabled (loadButton (loadAvailableImages_run h fo w)) = Some False)
   \<and> (refreshButton w = Some rb \<longrightarrow>
      (\<exists>w0. refreshImagesList h w =
               (makeApiCall h refresh_url ''POST'' w0, Some (btn_innerHTML rb))
            \<and> map_option btn_disabled (refreshButton w0) = Some True
            \<and> trace w0 = trace w)
      \<and> map_option btn_disabled (refreshButton (fst (refreshImagesList h w))) = Some True
      \<and> map_option btn_disabled
            (refreshButton (fst (refreshImagesList_settle h (btn_innerHTML rb)
               (makeApiCall_result fo) (fst (refreshImagesList h w))))) = Some False
      \<and> map_option btn_innerHTML
            (refreshButton (fst (refreshImagesList_settle h (btn_innerHTML rb)
               (makeApiCall_result fo) (fst (refreshImagesList h w))))) = Some (btn_innerHTML rb)
      \<and> map_option btn_disabled (refreshButton (refreshImagesList_run h fo lo w)) = Some False
      \<and> map_option btn_innerHTML (refreshButton (refreshImagesList_run h fo lo w)) =
          Some (btn_innerHTML rb))"
proof (intro conjI impI)
  assume a: "dropdown w = Some d \<and> loadButton w = Some b"
  let ?w0 = "w\<lparr>dropdown := Some ((set_innerHTML loading_markup d)\<lparr>sel_display := ''block''\<rparr>),
               loadButton := Some (b\<lparr>btn_disabled := True\<rparr>)\<rparr>"
  have eq: "loadAvailableImages h w = (makeApiCall h list_url ''GET'' ?w0, True)"
    using a by (simp add: loadAvailableImages_present)
  show "\<exists>w0. loadAvailableImages h w = (makeApiCall h list_url ''GET'' w0, True)
            \<and> map_option btn_disabled (loadButton w0) = Some True \<and> trace w0 = trace w"
    by (rule exI [of _ ?w0]) (simp add: eq)
  show "map_option btn_disabled (loadButton (fst (loadAvailableImages h w))) = Some True"
    by (simp add: eq)
  show "map_option btn_disabled (loadButton (loadAvailableImages_run h fo w)) = Some False"
    using a by (simp add: run_present settle_loadButton eq)
next
  assume a: "refreshButton w = Some rb"
  let ?w0 = "w\<lparr>refreshButton :=
                 Some (rb\<lparr>btn_disabled := True, btn_innerHTML := spinner_markup\<rparr>)\<rparr>"
  let ?c = "refreshImagesList_settle h (btn_innerHTML rb) (makeApiCall_result fo)
              (fst (refreshImagesList h w))"
  have eq: "refreshImagesList h w =
      (makeApiCall h refresh_url ''POST'' ?w0, Some (btn_innerHTML rb))"
    using a by (simp add: refreshImagesList_present)
  show "\<exists>w0. refreshImagesList h w =
               (makeApiCall h refresh_url ''POST'' w0, Some (btn_innerHTML rb))
            \<and> map_option btn_disabled (refreshButton w0) = Some True \<and> trace w0 = trace w"
    by (rule exI [of _ ?w0]) (simp add: eq)
  show "map_option btn_disabled (refreshButton (fst (refreshImagesList h w))) = Some True"
    by (simp add: eq)
  have c: "refreshButton (fst ?c) = Some (rb\<lparr>btn_disabled := False\<rparr>)"
    by (simp add: refresh_settle_refreshButton eq)
  show "map_option btn_disabled (refreshButton (fst ?c)) = Some False"
    by (simp add: c)
  show "map_option btn_innerHTML (refreshButton (fst ?c)) = Some (btn_innerHTML rb)"
    by (simp add: c)
  have r: "refreshButton (refreshImagesList_run h fo lo w) = Some (rb\<lparr>btn_disabled := False\<rparr>)"
    using a c by (simp add: refresh_run_present Let_def)
  show "map_option btn_disabled (refreshButton (refreshImagesList_run h fo lo w)) = Some False"
    by (simp add: r)
  show "map_option btn_innerHTML (refreshButton (refreshImagesList_run h fo lo w)) =
          Some (btn_innerHTML rb)"
    by (simp add: r)
qed

theorem C4_button_cleanup_witness:
  "map_option btn_disabled (loadButton (fst (loadAvailableImages host_ctfd page_full))) = Some True
   \<and> map_option btn_disabled
        (loadButton (loadAvailableImages_run host_ctfd (NetworkError failed_to_fetch) page_full)) =
       Some False
   \<and> map_option btn_disabled (refreshButton (fst (refreshImagesList host_ctfd page_full))) =
       Some True
   \<and> map_option btn_disabled
        (refreshButton (refreshImagesList_run host_ctfd (Response (Plain failure_locked))
           (Response (Plain two_images)) page_full)) = Some False
   \<and> map_option btn_innerHTML
        (refreshButton (refreshImagesList_run host_ctfd (Response (Plain failure_locked))
           (Response (Plain two_images)) page_full)) = Some ''Refresh''"
  using C4_button_cleanup [of page_full
          "\<lparr>sel_markup = [], sel_appended = [], sel_display = ''none'', sel_change = []\<rparr>"
          "\<lparr>btn_disabled = False, btn_innerHTML = ''Load'', btn_click = []\<rparr>"
          host_ctfd "NetworkError failed_to_fetch"
          "\<lparr>btn_disabled = False, btn_innerHTML = ''Refresh'', btn_click = []\<rparr>"
          "Response (Plain two_images)"]
        C4_button_cleanup [of page_full
          "\<lparr>sel_markup = [], sel_appended = [], sel_display = ''none'', sel_change = []\<rparr>"
          "\<lparr>btn_disabled = False, btn_innerHTML = ''Load'', btn_click = []\<rparr>"
          host_ctfd "Response (Plain failure_locked)"
          "\<lparr>btn_disabled = False, btn_innerHTML = ''Refresh'', btn_click = []\<rparr>"
          "Response (Plain two_images)"]
  by (simp add: page_full_def)

subsection \<open>C5: what the refresh chain does with each outcome\<close>

text \<open>
  Claim C5 says that every refresh payload with the success flag true shows one success
  alert. On a host with neither \<open>CTFd.ui.ezq.ezAlert\<close> nor \<open>alert\<close>, \<open>showAlert\<close> only
  writes to the console: the chain of a successful refresh raises no alert.
\<close>

theorem C5_counterexample:
  "alerts (emitted page_full
     (fst (refreshImagesList_chain host_bare (Response (Plain refresh_done)) page_full))) = []"
  by (simp add: model_defs input_defs split_beta)

text \<open>
  Claim C5 as amended. On a page that has the refresh button, take what
  \<open>refreshImagesList\<close> sends out from the call to the end of its own chain. When the
  refresh payload has the success flag true, \<open>loadAvailableImages\<close> is called exactly
  once (no further call comes before the list request it started has settled), and the
  host that offers an alert shows exactly one: the modal with the title
  \<open>Success\<close> and the payload's message as body, or else the platform's alert with the
  text \<open>Success: \<close> and the message. When the flag is false, or the request is
  rejected, \<open>loadAvailableImages\<close> is not called, the call ends with the chain, the
  dropdown is as before, and the host that offers an alert shows exactly one, titled
  \<open>Error\<close>: its message is the payload's message (or \<open>Failed to refresh images\<close>
  when that is missing or empty), or \<open>Failed to refresh images: \<close> followed by the
  error's message. A host that offers
  no alert gets none in any case. What the chain of the list request shows later belongs
  to \<open>loadAvailableImages\<close> (claims C1 to C3).
\<close>

theorem C5_refresh_outcomes:
  assumes "refreshButton w = Some rb"
  shows "(makeApiCall_result fo = Inr r \<and> success r \<longrightarrow>
            load_calls (emitted w (fst (refreshImagesList_chain h fo w))) = 1
            \<and> load_calls (emitted w (refreshImagesList_run h fo lo w)) = 1
            \<and> alerts (emitted w (fst (refreshImagesList_chain h fo w))) =
                (if has_ezAlert h then [EzAlert ''Success'' (message r) ''OK'']
                 else if has_alert h then [NativeAlert (''Success: '' @ js_to_string (message r))]
                 else []))
         \<and> (makeApiCall_result fo = Inr r \<and> \<not> success r \<longrightarrow>
            load_calls (emitted w (fst (refreshImagesList_chain h fo w))) = 0
            \<and> refreshImagesList_run h fo lo w = fst (refreshImagesList_chain h fo w)
            \<and> dropdown (fst (refreshImagesList_chain h fo w)) = dropdown w
            \<and> alerts (emitted w (fst (refreshImagesList_chain h fo w))) =
                (if has_ezAlert h
                 then [EzAlert ''Error'' (Some (js_or (message r) ''Failed to refresh images'')) ''OK'']
                 else if has_alert h
                 then [NativeAlert (''Error: '' @ js_or (message r) ''Failed to refresh images'')]
                 else []))
         \<and> (makeApiCall_result fo = Inl e \<longrightarrow>
            load_calls (emitted w (fst (refreshImagesList_chain h fo w))) = 0
            \<and> refreshImagesList_run h fo lo w = fst (refreshImagesList_chain h fo w)
            \<and> dropdown (fst (refreshImagesList_chain h fo w)) = dropdown w
            \<and> alerts (emitted w (fst (refreshImagesList_chain h fo w))) =
                (if has_ezAlert h
                 then [EzAlert ''Error'' (Some (''Failed to refresh images: '' @ err_message e)) ''OK'']
                 else if has_alert h
                 then [NativeAlert (''Error: Failed to refresh images: '' @ err_message e)]
                 else []))"
proof -
  have run_ends: "\<not> snd (refreshImagesList_chain h fo w) \<Longrightarrow>
      refreshImagesList_run h fo lo w = fst (refreshImagesList_chain h fo w)"
    by (simp add: refresh_run_via_chain)
  show ?thesis
    by (simp add: refresh_run_load_calls run_ends refresh_chain_pending [OF assms]
          refresh_chain_emitted [OF assms] refresh_chain_dropdown [OF assms])
qed

theorem C5_refresh_outcomes_witness:
  "load_calls (emitted page_full
      (fst (refreshImagesList_chain host_ctfd (Response (Plain refresh_done)) page_full))) = 1
   \<and> alerts (emitted page_full
      (fst (refreshImagesList_chain host_ctfd (Response (Plain refresh_done)) page_full))) =
      [EzAlert ''Success'' (Some ''Image list refreshed'') ''OK'']
   \<and> load_calls (emitted page_full
      (fst (refreshImagesList_chain host_ctfd (Response (Plain failure_locked)) page_full))) = 0
   \<and> alerts (emitted page_full
      (fst (refreshImagesList_chain host_ctfd (Response (Plain failure_locked)) page_full))) =
      [EzAlert ''Error'' (Some ''locked'') ''OK'']
   \<and> alerts (emitted page_full
      (fst (refreshImagesList_chain host_browser (NetworkError failed_to_fetch) page_full))) =
      [NativeAlert ''Error: Failed to refresh images: Failed to fetch'']"
proof -
  have h: "refreshButton page_full =
      Some \<lparr>btn_disabled = False, btn_innerHTML = ''Refresh'', btn_click = []\<rparr>"
    by (simp add: page_full_def)
  from C5_refresh_outcomes [OF h, where fo = "Response (Plain refresh_done)"
         and r = refresh_done and h = host_ctfd]
       C5_refresh_outcomes [OF h, where fo = "Response (Plain failure_locked)"
         and r = failure_locked and h = host_ctfd]
       C5_refresh_outcomes [OF h, where fo = "NetworkError failed_to_fetch"
         and e = failed_to_fetch and h = host_browser]
  show ?thesis
    by (simp add: refresh_done_def failure_locked_def failed_to_fetch_def host_ctfd_def
          host_browser_def js_or_def)
qed

subsection \<open>C6: a missing element aborts the call\<close>

text \<open>
  Claim C6. When the select or the load button is missing, \<open>loadAvailableImages\<close>
  returns at once: the only thing it does is one console error, so no request is issued,
  no alert is raised and every element of the page is as before, whatever the network
  would have answered. The same holds for \<open>refreshImagesList\<close> when the refresh button
  is missing.
\<close>

theorem C6_missing_elements_abort:
  "(dropdown w = None \<or> loadButton w = None \<longrightarrow>
      loadAvailableImages h w =
        (w\<lparr>trace := trace w @ [ConsoleError [Text ''Image dropdown elements not found'']]\<rparr>, False)
      \<and> loadAvailableImages_run h fo w =
          w\<lparr>trace := trace w @ [ConsoleError [Text ''Image dropdown elements not found'']]\<rparr>
      \<and> requests (emitted w (loadAvailableImages_run h fo w)) = []
      \<and> alerts (emitted w (loadAvailableImages_run h fo w)) = [])
   \<and> (refreshButton w = None \<longrightarrow>
      refreshImagesList h w =
        (w\<lparr>trace := trace w @ [ConsoleError [Text ''Refresh button not found'']]\<rparr>, None)
      \<and> refreshImagesList_run h fo lo w =
          w\<lparr>trace := trace w @ [ConsoleError [Text ''Refresh button not found'']]\<rparr>
      \<and> requests (emitted w (refreshImagesList_run h fo lo w)) = []
      \<and> alerts (emitted w (refreshImagesList_run h fo lo w)) = [])"
proof (intro conjI impI)
  assume a: "dropdown w = None \<or> loadButton w = None"
  show l: "loadAvailableImages h w =
        (w\<lparr>trace := trace w @ [ConsoleError [Text ''Image dropdown elements not found'']]\<rparr>, False)"
    using a by (simp add: loadAvailableImages_absent world_trace_update)
  show r: "loadAvailableImages_run h fo w =
          w\<lparr>trace := trace w @ [ConsoleError [Text ''Image dropdown elements not found'']]\<rparr>"
    by (simp add: loadAvailableImages_run_def l)
  show "requests (emitted w (loadAvailableImages_run h fo w)) = []"
    by (simp add: r emitted_def requests_def)
  show "alerts (emitted w (loadAvailableImages_run h fo w)) = []"
    by (simp add: r emitted_def alerts_def)
next
  assume a: "refreshButton w = None"
  show l: "refreshImagesList h w =
        (w\<lparr>trace := trace w @ [ConsoleError [Text ''Refresh button not found'']]\<rparr>, None)"
    using a by (simp add: refreshImagesList_def world_trace_update)
  show r: "refreshImagesList_run h fo lo w =
          w\<lparr>trace := trace w @ [ConsoleError [Text ''Refresh button not found'']]\<rparr>"
    by (simp add: refreshImagesList_run_def l)
  show "requests (emitted w (refreshImagesList_run h fo lo w)) = []"
    by (simp add: r emitted_def requests_def)
  show "alerts (emitted w (refreshImagesList_run h fo lo w)) = []"
    by (simp add: r emitted_def alerts_def)
qed

theorem C6_missing_elements_abort_witness:
  "loadAvailableImages_run host_ctfd (Response (Plain two_images)) page_without_dropdown =
     page_without_dropdown\<lparr>trace := [ConsoleError [Text ''Image dropdown elements not found'']]\<rparr>
   \<and> refreshImagesList_run host_ctfd (Response (Plain failure_locked)) (Response (Plain two_images))
        (page_full\<lparr>refreshButton := None\<rparr>) =
      page_full\<lparr>refreshButton := None,
                 trace := [ConsoleError [Text ''Refresh button not found'']]\<rparr>"
  using C6_missing_elements_abort [of page_without_dropdown host_ctfd "Response (Plain two_images)"]
    C6_missing_elements_abort [of "page_full\<lparr>refreshButton := None\<rparr>" host_ctfd
      "Response (Plain failure_locked)" "Response (Plain two_images)"]
  by (simp add: page_without_dropdown_def page_full_def)

subsection \<open>C7: selecting an image\<close>

text \<open>
  Claim C7 says that every firing of the change handler with a non-empty selected value
  copies the value into the \<open>docker_image\<close> input and hides the dropdown. The handler
  does both only inside \<open>if (dockerImageInput)\<close>: on a page without that input, after a
  list of two images was loaded and \<open>ubuntu\<close> is selected, the dropdown keeps the display
  style \<open>block\<close>.
\<close>

theorem C7_counterexample:
  "map_option sel_display (dropdown (on_dropdown_change ''ubuntu''
      (loadAvailableImages_run host_ctfd (Response (Plain two_images)) page_without_input))) =
     Some ''block''"
  by (simp add: listed_page_without_input on_dropdown_change_def Let_def emit_def)

text \<open>
  Claim C7 as amended. When the change handler fires with a non-empty selected value and
  the page has the \<open>docker_image\<close> input, the value becomes the input's value and the
  dropdown's display style becomes \<open>none\<close>; when the selected value is empty, the input
  and the dropdown are as before.
\<close>

theorem C7_change_handler:
  "(selectedImage \<noteq> [] \<and> dropdown w = Some d \<and> dockerImageInput w = Some inp \<longrightarrow>
      dockerImageInput (on_dropdown_change selectedImage w) = Some (inp\<lparr>inp_value := selectedImage\<rparr>)
      \<and> map_option inp_value (dockerImageInput (on_dropdown_change selectedImage w)) = Some selectedImage
      \<and> dropdown (on_dropdown_change selectedImage w) = Some (d\<lparr>sel_display := ''none''\<rparr>))
   \<and> (selectedImage = [] \<longrightarrow>
      dockerImageInput (on_dropdown_change selectedImage w) = dockerImageInput w
      \<and> dropdown (on_dropdown_change selectedImage w) = dropdown w)"
  by (simp add: on_dropdown_change_def Let_def)

theorem C7_change_handler_witness:
  "dockerImageInput (on_dropdown_change ''ubuntu''
      (loadAvailableImages_run host_ctfd (Response (Plain two_images)) page_full)) =
     Some \<lparr>inp_value = ''ubuntu''\<rparr>
   \<and> map_option sel_display (dropdown (on_dropdown_change ''ubuntu''
      (loadAvailableImages_run host_ctfd (Response (Plain two_images)) page_full))) = Some ''none''
   \<and> dockerImageInput (on_dropdown_change []
      (loadAvailableImages_run host_ctfd (Response (Plain two_images)) page_full)) =
     Some \<lparr>inp_value = ''old''\<rparr>
   \<and> map_option sel_display (dropdown (on_dropdown_change []
      (loadAvailableImages_run host_ctfd (Response (Plain two_images)) page_full))) = Some ''block''"
proof -
  let ?w = "loadAvailableImages_run host_ctfd (Response (Plain two_images)) page_full"
  have d: "dropdown ?w = Some \<lparr>sel_markup = select_markup,
                        sel_appended = [\<lparr>opt_value = ''ubuntu'', opt_text = ''ubuntu''\<rparr>,
                                        \<lparr>opt_value = ''alpine'', opt_text = ''alpine''\<rparr>],
                        sel_display = ''block'', sel_change = []\<rparr>"
    by (simp add: model_defs input_defs)
  have i: "dockerImageInput ?w = Some \<lparr>inp_value = ''old''\<rparr>"
    by (simp add: model_defs input_defs)
  from C7_change_handler [of "''ubuntu''" ?w _ "\<lparr>inp_value = ''old''\<rparr>"]
       C7_change_handler [of "[]" ?w] d i
  show ?thesis by simp
qed

subsection \<open>C8: the image parameter of the page URL\<close>

text \<open>
  Claim C8 says that a query parameter named \<open>image\<close> always gives the input its value.
  The script tests \<open>if (preselectedImage)\<close>, and the empty string is falsy: with
  \<open>?image=\<close> the parameter is there, its value is the empty string, and the input keeps
  the value it had.
\<close>

theorem C8_counterexample:
  "map_of [(''image'', [])] ''image'' = Some []
   \<and> map_option inp_value (dockerImageInput (setupImageDropdown [(''image'', [])] page_full)) =
       Some ''old''"
  by (simp add: setupImageDropdown_def emit_def Let_def page_full_def)

text \<open>
  Claim C8 as amended. When the query has a parameter \<open>image\<close> whose (first) value is not
  empty and the page has the \<open>docker_image\<close> input, \<open>setupImageDropdown\<close> makes that
  value the input's value as it is, checked against nothing; when the parameter is absent
  or empty the input is as before; and \<open>setupImageDropdown\<close> issues no request.
\<close>

theorem C8_url_parameter:
  "(map_of urlParams ''image'' = Some v \<and> v \<noteq> [] \<and> dockerImageInput w = Some inp \<longrightarrow>
      dockerImageInput (setupImageDropdown urlParams w) = Some (inp\<lparr>inp_value := v\<rparr>)
      \<and> map_option inp_value (dockerImageInput (setupImageDropdown urlParams w)) = Some v)
   \<and> (map_of urlParams ''image'' = None \<or> map_of urlParams ''image'' = Some [] \<longrightarrow>
      dockerImageInput (setupImageDropdown urlParams w) = dockerImageInput w)
   \<and> requests (emitted w (setupImageDropdown urlParams w)) = []"
  by (auto simp: setup_input setup_requests)

theorem C8_url_parameter_witness:
  "map_option inp_value
     (dockerImageInput (setupImageDropdown [(''image'', ''alpine:latest'')] page_full)) =
     Some ''alpine:latest''
   \<and> map_option inp_value
     (dockerImageInput (setupImageDropdown [(''other'', ''x'')] page_full)) = Some ''old''
   \<and> requests (emitted page_full
        (setupImageDropdown [(''image'', ''alpine:latest'')] page_full)) = []"
  using C8_url_parameter [of "[(''image'', ''alpine:latest'')]" "''alpine:latest''" page_full
          "\<lparr>inp_value = ''old''\<rparr>"]
        C8_url_parameter [of "[(''other'', ''x'')]" _ page_full]
  by (simp add: page_full_def)

subsection \<open>C9: a selection without the text input\<close>

text \<open>
  Claim C9. When the change handler fires with a non-empty selected value and the page has
  no \<open>docker_image\<close> input, nothing on the page changes: no value is copied and the
  dropdown keeps its display style. The handler only writes its console line.
\<close>

theorem C9_absent_input_no_effect:
  assumes "selectedImage \<noteq> []" and "dockerImageInput w = None"
  shows "on_dropdown_change selectedImage w =
           w\<lparr>trace := trace w @ [ConsoleLog [Text ''Image selected:'', Text selectedImage]]\<rparr>
         \<and> dropdown (on_dropdown_change selectedImage w) = dropdown w
         \<and> dockerImageInput (on_dropdown_change selectedImage w) = None"
  using assms by (simp add: on_dropdown_change_def Let_def world_trace_update)

theorem C9_absent_input_no_effect_witness:
  "dropdown (on_dropdown_change ''ubuntu''
      (loadAvailableImages_run host_ctfd (Response (Plain two_images)) page_without_input)) =
     dropdown (loadAvailableImages_run host_ctfd (Response (Plain two_images)) page_without_input)
   \<and> map_option sel_display (dropdown (on_dropdown_change ''ubuntu''
      (loadAvailableImages_run host_ctfd (Response (Plain two_images)) page_without_input))) =
     Some ''block''
   \<and> dockerImageInput (on_dropdown_change ''ubuntu''
      (loadAvailableImages_run host_ctfd (Response (Plain two_images)) page_without_input)) = None"
  using C9_absent_input_no_effect [of "''ubuntu''"
          "loadAvailableImages_run host_ctfd (Response (Plain two_images)) page_without_input"]
  by (simp add: listed_page_without_input)

subsection \<open>C10: the default message of the refresh alerts\<close>

text \<open>
  Claim C10. On a page that has the refresh button (without it no request is made), in
  the chain of \<open>refreshImagesList\<close> the success alert is given the
  payload's message field as it is: the body of the modal is that field, \<open>undefined\<close>
  (here \<open>None\<close>) when the field is absent, and the platform's alert and the console line
  then read \<open>Success: undefined\<close>; no default text is put in its place. The failure
  branch does put a default: with the field absent its alert carries
  \<open>Failed to refresh images\<close>.
\<close>

theorem C10_message_defaulting:
  assumes "refreshButton w = Some rb" and "makeApiCall_result fo = Inr r"
  shows "(success r \<longrightarrow>
            alerts (emitted w (fst (refreshImagesList_chain h fo w))) =
              (if has_ezAlert h then [EzAlert ''Success'' (message r) ''OK'']
               else if has_alert h
               then [NativeAlert (''Success: '' @ (case message r of None \<Rightarrow> ''undefined''
                                                   | Some s \<Rightarrow> s))]
               else []))
         \<and> (success r \<and> message r = None \<longrightarrow>
            ConsoleLog [Text ''Success: undefined'']
              \<in> set (emitted w (fst (refreshImagesList_chain h fo w))))
         \<and> (\<not> success r \<and> message r = None \<longrightarrow>
            alerts (emitted w (fst (refreshImagesList_chain h fo w))) =
              (if has_ezAlert h then [EzAlert ''Error'' (Some ''Failed to refresh images'') ''OK'']
               else if has_alert h then [NativeAlert ''Error: Failed to refresh images'']
               else []))"
  by (simp add: refresh_chain_emitted [OF assms(1)] assms(2) js_to_string_def js_or_def)

theorem C10_message_defaulting_witness:
  "alerts (emitted page_full
      (fst (refreshImagesList_chain host_ctfd (Response (Plain success_no_message)) page_full))) =
      [EzAlert ''Success'' None ''OK'']
   \<and> alerts (emitted page_full
      (fst (refreshImagesList_chain host_browser (Response (Plain success_no_message)) page_full))) =
      [NativeAlert ''Success: undefined'']
   \<and> alerts (emitted page_full
      (fst (refreshImagesList_chain host_ctfd
         (Response (Plain \<lparr>success = False, data = None, message = None\<rparr>)) page_full))) =
      [EzAlert ''Error'' (Some ''Failed to refresh images'') ''OK'']"
proof -
  have h: "refreshButton page_full =
      Some \<lparr>btn_disabled = False, btn_innerHTML = ''Refresh'', btn_click = []\<rparr>"
    by (simp add: page_full_def)
  have a: "makeApiCall_result (Response (Plain success_no_message)) = Inr success_no_message"
    by simp
  have b: "makeApiCall_result (Response (Plain \<lparr>success = False, data = None, message = None\<rparr>))
             = Inr \<lparr>success = False, data = None, message = None\<rparr>"
    by simp
  from C10_message_defaulting [OF h a, of host_ctfd] C10_message_defaulting [OF h a, of host_browser]
       C10_message_defaulting [OF h b, of host_ctfd]
  show ?thesis
    by (simp add: success_no_message_def host_ctfd_def host_browser_def)
qed

end
